theory Spec2Isabelle
  imports Main "HOL-Library.Word"
begin

section \<open>Python strings and integers used by the converter\<close>

text \<open>
  The program is \<^verbatim>\<open>src/main.py\<close>. A string is a list of characters, and a character
  is a code point from 0 to 255; text with code points above 255 is outside the model.
  On these code points \<^verbatim>\<open>str.isspace\<close>, and with it \<^verbatim>\<open>str.strip\<close>, holds of 9 to 13,
  28 to 32, 133 (U+0085) and 160 (U+00A0).
\<close>

datatype exn = ValueError | IndexError | OSError | LibError

definition py_isspace :: "char \<Rightarrow> bool" where
  "py_isspace c =
     (let n = (of_char c :: nat)
      in (9 \<le> n \<and> n \<le> 13) \<or> (28 \<le> n \<and> n \<le> 32) \<or> n = 133 \<or> n = 160)"

definition py_lstrip :: "string \<Rightarrow> string" where
  "py_lstrip s = dropWhile py_isspace s"

definition py_rstrip :: "string \<Rightarrow> string" where
  "py_rstrip s = rev (dropWhile py_isspace (rev s))"

definition py_strip :: "string \<Rightarrow> string" where
  "py_strip s = py_rstrip (py_lstrip s)"

text \<open>\<^verbatim>\<open>s.split(c)\<close> for a one-character separator: every occurrence cuts, so the
  result has one more field than there are separators.\<close>

fun py_split :: "char \<Rightarrow> string \<Rightarrow> string list" where
  "py_split c [] = [[]]"
| "py_split c (x # xs) =
     (if x = c then [] # py_split c xs
      else (case py_split c xs of
              [] \<Rightarrow> [[x]]
            | p # ps \<Rightarrow> (x # p) # ps))"

subsection \<open>The conversion \<^verbatim>\<open>int(s)\<close>\<close>

text \<open>
  \<^verbatim>\<open>int\<close> on a string works in two steps. A string with a code point of 128 or more is
  rewritten first: code points below 127 stay, white space becomes a blank, and any other
  code point (none of them is a decimal digit below 256) ends the text with a question
  mark. The text is then read as C does: white space is 9 to 13 and 32 only, an optional
  sign follows, then decimal digits with single underscores between digits, then white
  space to the end. A literal of more than 4300 digits is refused (the default limit of
  Python 3.11 and later). \<open>None\<close> stands for the \<^verbatim>\<open>ValueError\<close> raised.
\<close>

definition is_ascii :: "char \<Rightarrow> bool" where
  "is_ascii c = ((of_char c :: nat) < 128)"

definition c_isspace :: "char \<Rightarrow> bool" where
  "c_isspace c = (let n = (of_char c :: nat) in (9 \<le> n \<and> n \<le> 13) \<or> n = 32)"

fun int_transform :: "string \<Rightarrow> string" where
  "int_transform [] = []"
| "int_transform (c # cs) =
     (if (of_char c :: nat) < 127 then c # int_transform cs
      else if py_isspace c then CHR '' '' # int_transform cs
      else [CHR ''?''])"

definition is_digit :: "char \<Rightarrow> bool" where
  "is_digit c = (let n = (of_char c :: nat) in 48 \<le> n \<and> n \<le> 57)"

definition digit_val :: "char \<Rightarrow> int" where
  "digit_val c = int (of_char c) - 48"

definition is_body_char :: "char \<Rightarrow> bool" where
  "is_body_char c = (is_digit c \<or> c = CHR ''_'')"

text \<open>Whether a run of digits and underscores is a literal: it is not empty, and no
  underscore stands first, last or next to another. The flag tells whether the previous
  character was a digit.\<close>

fun body_ok :: "bool \<Rightarrow> string \<Rightarrow> bool" where
  "body_ok prev_digit [] = prev_digit"
| "body_ok prev_digit (c # cs) =
     (if is_digit c then body_ok True cs
      else if c = CHR ''_'' \<and> prev_digit then body_ok False cs
      else False)"

definition digits_value :: "string \<Rightarrow> int" where
  "digits_value body = foldl (\<lambda>acc c. acc * 10 + digit_val c) 0 (filter is_digit body)"

definition max_str_digits :: nat where
  "max_str_digits = 4300"

definition py_int :: "string \<Rightarrow> int option" where
  "py_int s =
     (let t = (if list_all is_ascii s then s else int_transform s);
          t1 = dropWhile c_isspace t;
          negative = (case t1 of [] \<Rightarrow> False | c # cs \<Rightarrow> c = CHR ''-'');
          t2 = (case t1 of
                  [] \<Rightarrow> []
                | c # cs \<Rightarrow> if c = CHR ''+'' \<or> c = CHR ''-'' then cs else t1);
          body = takeWhile is_body_char t2;
          rest = dropWhile is_body_char t2
      in if body_ok False body \<and> list_all c_isspace rest
            \<and> length (filter is_digit body) \<le> max_str_digits
         then Some (if negative then - digits_value body else digits_value body)
         else None)"

text \<open>\<^verbatim>\<open>range(a, b)\<close> over Python integers.\<close>

definition py_range :: "int \<Rightarrow> int \<Rightarrow> int list" where
  "py_range a b = [a..b - 1]"

section \<open>The page range parser\<close>

text \<open>
  One pass of the loop body of \<^verbatim>\<open>parse_page_range\<close> (lines 72 to 89): the pages that the
  term adds, or the \<^verbatim>\<open>ValueError\<close> that leaves the function. Only the single page
  branch sits in a \<^verbatim>\<open>try\<close>; the two \<^verbatim>\<open>int\<close> calls of the range branch do not.
\<close>

definition parse_part :: "int \<Rightarrow> string \<Rightarrow> exn + int list" where
  "parse_part total_pages part0 =
     (let part = py_strip part0 in
      if CHR ''-'' \<in> set part then
        (case py_split CHR ''-'' part of
           [start, end] \<Rightarrow>
             (case (if py_strip start \<noteq> [] then py_int (py_strip start) else Some 1) of
                None \<Rightarrow> Inl ValueError
              | Some start1 \<Rightarrow>
                  (case (if py_strip end \<noteq> [] then py_int (py_strip end)
                         else Some total_pages) of
                     None \<Rightarrow> Inl ValueError
                   | Some end1 \<Rightarrow>
                       (let start2 = max 1 start1;
                            end2 = min total_pages end1
                        in Inr (py_range (start2 - 1) end2))))
         | _ \<Rightarrow> Inr [])
      else if py_strip part \<noteq> [] then
        (case py_int (py_strip part) of
           Some page \<Rightarrow> if 1 \<le> page \<and> page \<le> total_pages then Inr [page - 1] else Inr []
         | None \<Rightarrow> Inr [])
      else Inr [])"

text \<open>The \<^verbatim>\<open>for part in parts\<close> loop, \<open>pages\<close> being the list built so far.\<close>

fun parse_parts :: "int \<Rightarrow> string list \<Rightarrow> int list \<Rightarrow> exn + int list" where
  "parse_parts total_pages [] pages = Inr pages"
| "parse_parts total_pages (part # parts) pages =
     (case parse_part total_pages part of
        Inl e \<Rightarrow> Inl e
      | Inr new \<Rightarrow> parse_parts total_pages parts (pages @ new))"

definition parse_page_range :: "string \<Rightarrow> int \<Rightarrow> exn + int list" where
  "parse_page_range page_range_str total_pages =
     (if py_strip page_range_str = [] then Inr (py_range 0 total_pages)
      else
        (case parse_parts total_pages (py_split CHR '','' page_range_str) [] of
           Inl e \<Rightarrow> Inl e
         | Inr pages \<Rightarrow> Inr (sorted_list_of_set (set pages))))"

section \<open>The tone transform\<close>

text \<open>
  A grey pixel is a byte. Line 151 hands \<^verbatim>\<open>lambda x: 0 if x < threshold else 255\<close> to
  \<^verbatim>\<open>Image.point\<close> with mode \<^verbatim>\<open>'1'\<close>: the library calls the function on each of
  \<^verbatim>\<open>range(256)\<close> to build a table and then replaces every pixel by the table entry at
  the pixel's value. In a mode \<^verbatim>\<open>'1'\<close> image the byte 0 is black and 255 is white.
\<close>

type_synonym pixel = "8 word"

definition black :: pixel where
  "black = 0"

definition white :: pixel where
  "white = 255"

definition threshold_fn :: "int \<Rightarrow> int \<Rightarrow> int" where
  "threshold_fn threshold x = (if x < threshold then 0 else 255)"

definition point_table :: "(int \<Rightarrow> int) \<Rightarrow> int list" where
  "point_table f = map f (py_range 0 256)"

definition point_pixel :: "int list \<Rightarrow> pixel \<Rightarrow> pixel" where
  "point_pixel table v = word_of_int (table ! unat v)"

definition point_bw :: "int \<Rightarrow> pixel list \<Rightarrow> pixel list" where
  "point_bw threshold gray_img = map (point_pixel (point_table (threshold_fn threshold))) gray_img"

section \<open>Paths\<close>

text \<open>
  \<^verbatim>\<open>os.path\<close> is the POSIX one: the separator is the slash. \<^verbatim>\<open>s.rfind(c)\<close> is the
  index of the last occurrence, or -1.
\<close>

definition rfind :: "char \<Rightarrow> string \<Rightarrow> int" where
  "rfind c s =
     (if c \<in> set s then int (length s) - 1 - int (length (takeWhile (\<lambda>x. x \<noteq> c) (rev s)))
      else - 1)"

definition rstrip_char :: "char \<Rightarrow> string \<Rightarrow> string" where
  "rstrip_char c s = rev (dropWhile (\<lambda>x. x = c) (rev s))"

text \<open>\<^verbatim>\<open>os.path.split\<close>: the head loses its trailing slashes unless it consists of
  slashes only.\<close>

definition path_split :: "string \<Rightarrow> string \<times> string" where
  "path_split p =
     (let i = nat (rfind CHR ''/'' p + 1);
          head = take i p;
          tail = drop i p;
          head1 = (if head \<noteq> [] \<and> head \<noteq> replicate (length head) CHR ''/''
                   then rstrip_char CHR ''/'' head else head)
      in (head1, tail))"

definition dirname :: "string \<Rightarrow> string" where
  "dirname p = fst (path_split p)"

definition basename :: "string \<Rightarrow> string" where
  "basename p = snd (path_split p)"

text \<open>\<^verbatim>\<open>os.path.splitext\<close>: the extension starts at the last dot of the last component,
  unless only dots stand before it in that component.\<close>

definition splitext :: "string \<Rightarrow> string \<times> string" where
  "splitext p =
     (let sepIndex = rfind CHR ''/'' p;
          dotIndex = rfind CHR ''.'' p
      in if dotIndex > sepIndex \<and>
            list_ex (\<lambda>c. c \<noteq> CHR ''.'')
              (take (nat (dotIndex - (sepIndex + 1))) (drop (nat (sepIndex + 1)) p))
         then (take (nat dotIndex) p, drop (nat dotIndex) p)
         else (p, []))"

text \<open>\<^verbatim>\<open>os.path.join(a, b)\<close> with two arguments.\<close>

definition path_join :: "string \<Rightarrow> string \<Rightarrow> string" where
  "path_join a b =
     (if b \<noteq> [] \<and> hd b = CHR ''/'' then b
      else if a = [] \<or> last a = CHR ''/'' then a @ b
      else a @ ''/'' @ b)"


section \<open>The world of a conversion\<close>

text \<open>
  What the program touches outside itself is explicit. The file system maps a path to
  what exists there; \<^verbatim>\<open>os.path.exists\<close> holds of files and of directories. The list
  \<open>rendered\<close> records every page handed to the rasterizer (\<^verbatim>\<open>load_page\<close> and
  \<^verbatim>\<open>get_pixmap\<close>), \<open>log\<close> is the text of the log panel, one entry per message, and
  \<open>opened\<close> lists the files handed to the viewer. The rotating log file of the
  \<^verbatim>\<open>logging\<close> module, the progress percentage and the clock of the duration are left
  out.
\<close>

type_synonym path = string
type_synonym bytes = "8 word list"

datatype node = File bytes | Dir

datatype msg =
    MsgChecking string
  | MsgNotFound path
  | MsgNoValidPages
  | MsgPage nat nat int
  | MsgSuccess string string
  | MsgError exn
  | MsgSkip string
  | MsgRangeError exn
  | MsgAllDone

record world =
  fs :: "path \<rightharpoonup> node"
  rendered :: "(path \<times> int) list"
  log :: "msg list"
  opened :: "path list"

text \<open>
  The libraries and the user are parameters: each field answers one call. \<open>fitz_open\<close>
  gives the page count of a file's contents, \<open>render_gray\<close> stands for lines 144 to 150
  (or 155) on one page: rasterize at the resolution and reduce to grey. The two
  \<open>save\<close> fields are the encoders, \<open>img2pdf_convert\<close> assembles, \<open>open_wb\<close> tells
  whether \<^verbatim>\<open>open(path, "wb")\<close> succeeds on a path that is not a directory,
  \<open>askyesno\<close> is the user's answer for the file with the given index, and \<open>now\<close> is
  the formatted time at that file.
\<close>

record libs =
  fitz_open :: "bytes \<Rightarrow> exn + nat"
  render_gray :: "bytes \<Rightarrow> int \<Rightarrow> int \<Rightarrow> exn + pixel list"
  save_tiff_g4 :: "pixel list \<Rightarrow> exn + bytes"
  save_jpeg :: "pixel list \<Rightarrow> int \<Rightarrow> exn + bytes"
  img2pdf_convert :: "bytes list \<Rightarrow> exn + bytes"
  open_wb :: "path \<Rightarrow> bool"
  askyesno :: "nat \<Rightarrow> bool"
  now :: "nat \<Rightarrow> string"

record request =
  input_pdf :: path
  output_pdf :: path
  threshold :: int
  dpi :: int
  progress_callback :: bool
  page_range :: "int list option"
  mode :: string
  compression :: int

definition log_message :: "msg \<Rightarrow> world \<Rightarrow> world" where
  "log_message m w = w\<lparr>log := log w @ [m]\<rparr>"

definition report :: "request \<Rightarrow> msg \<Rightarrow> world \<Rightarrow> world" where
  "report r m w = (if progress_callback r then log_message m w else w)"

definition path_exists :: "world \<Rightarrow> path \<Rightarrow> bool" where
  "path_exists w p = (fs w p \<noteq> None)"

text \<open>\<^verbatim>\<open>fitz.open(path)\<close> on the file system: a missing path or a directory raises.\<close>

definition open_document :: "libs \<Rightarrow> world \<Rightarrow> path \<Rightarrow> exn + (bytes \<times> nat)" where
  "open_document L w p =
     (case fs w p of
        None \<Rightarrow> Inl LibError
      | Some Dir \<Rightarrow> Inl LibError
      | Some (File content) \<Rightarrow>
          (case fitz_open L content of
             Inl e \<Rightarrow> Inl e
           | Inr total_pages \<Rightarrow> Inr (content, total_pages)))"

section \<open>The conversion pipeline\<close>

text \<open>
  The loop of lines 139 to 159 over the selected pages. \<open>idx\<close> counts the pages done,
  \<open>bw_images\<close> is the list of encoded pages so far. An exception leaves the loop with
  the world as it is at that point.
\<close>

fun process_pages ::
  "libs \<Rightarrow> request \<Rightarrow> bytes \<Rightarrow> nat \<Rightarrow> nat \<Rightarrow> int list \<Rightarrow> bytes list \<Rightarrow> world
   \<Rightarrow> (exn + bytes list) \<times> world" where
  "process_pages L r content num_pages idx [] bw_images w = (Inr bw_images, w)"
| "process_pages L r content num_pages idx (page_num # rest) bw_images w =
     (let w1 = report r (MsgPage (idx + 1) num_pages (page_num + 1)) w;
          w2 = w1\<lparr>rendered := rendered w1 @ [(input_pdf r, page_num)]\<rparr>
      in case render_gray L content page_num (dpi r) of
           Inl e \<Rightarrow> (Inl e, w2)
         | Inr gray_img \<Rightarrow>
             (case (if mode r = ''bw''
                    then save_tiff_g4 L (point_bw (threshold r) gray_img)
                    else save_jpeg L gray_img (compression r)) of
                Inl e \<Rightarrow> (Inl e, w2)
              | Inr img_bytes \<Rightarrow>
                  process_pages L r content num_pages (idx + 1) rest
                    (bw_images @ [img_bytes]) w2))"

text \<open>Where a run of \<^verbatim>\<open>convert_pdf_to_bw\<close> leaves the function.\<close>

datatype exit_point =
    InputNotFound
  | OpenFailed
  | EmptySelection
  | PageFailed
  | DestOpenFailed
  | AssemblyFailed
  | Done

text \<open>
  \<^verbatim>\<open>convert_pdf_to_bw\<close>, lines 105 to 184, with the exit taken. Line 162 opens the
  destination for writing, which creates or empties it, before line 163 calls
  \<^verbatim>\<open>img2pdf.convert\<close> and writes the result. The write itself is taken to succeed.
\<close>

definition convert_run :: "libs \<Rightarrow> request \<Rightarrow> world \<Rightarrow> exit_point \<times> world" where
  "convert_run L r w0 =
     (let w1 = report r (MsgChecking (basename (input_pdf r))) w0 in
      if \<not> path_exists w1 (input_pdf r) then
        (InputNotFound, report r (MsgNotFound (input_pdf r)) w1)
      else
        (case open_document L w1 (input_pdf r) of
           Inl e \<Rightarrow> (OpenFailed, report r (MsgError e) w1)
         | Inr (content, total_pages) \<Rightarrow>
             (let page_range1 =
                    (case page_range r of
                       None \<Rightarrow> py_range 0 (int total_pages)
                     | Some ps \<Rightarrow> filter (\<lambda>p. p < int total_pages) ps)
              in if page_range1 = [] then
                   (EmptySelection, report r MsgNoValidPages w1)
                 else
                   (case process_pages L r content (length page_range1) 0 page_range1 [] w1 of
                      (Inl e, w2) \<Rightarrow> (PageFailed, report r (MsgError e) w2)
                    | (Inr bw_images, w2) \<Rightarrow>
                        if fs w2 (output_pdf r) = Some Dir \<or> \<not> open_wb L (output_pdf r) then
                          (DestOpenFailed, report r (MsgError OSError) w2)
                        else
                          (let w3 = w2\<lparr>fs := (fs w2)(output_pdf r \<mapsto> File [])\<rparr> in
                           case img2pdf_convert L bw_images of
                             Inl e \<Rightarrow> (AssemblyFailed, report r (MsgError e) w3)
                           | Inr pdf \<Rightarrow>
                               (Done,
                                report r
                                  (MsgSuccess (basename (input_pdf r)) (basename (output_pdf r)))
                                  (w3\<lparr>fs := (fs w3)(output_pdf r \<mapsto> File pdf)\<rparr>)))))))"

definition convert_pdf_to_bw :: "libs \<Rightarrow> request \<Rightarrow> world \<Rightarrow> bool \<times> world" where
  "convert_pdf_to_bw L r w =
     (case convert_run L r w of (x, w') \<Rightarrow> (x = Done, w'))"

section \<open>The batch orchestrator\<close>

text \<open>
  The fields of \<^verbatim>\<open>PDFConverterApp\<close> that a batch reads or writes. The two entries and
  the page range entry hold the text as typed. \<open>dpi_value\<close> is the resolution as
  \<^verbatim>\<open>int(self.dpi_value.get())\<close> reads it: \<^verbatim>\<open>start_conversion\<close> parses the same
  text first (line 439 through line 471), so a batch that runs has a resolution.
  \<open>settings_overwrite\<close> is \<^verbatim>\<open>self.settings['overwrite']\<close>. The worker thread of one
  file and the callbacks it schedules run one after the other, as the program arranges:
  the next file starts only from the end of \<^verbatim>\<open>run_conversion\<close>. The list of files and
  the entries are taken to stay as they are while a batch runs.
\<close>

record app =
  input_files :: "path list"
  current_file_index :: nat
  total_files :: nat
  settings_overwrite :: string
  overwrite_var :: string
  output_dir_entry :: string
  suffix_entry :: string
  page_range_entry :: string
  timestamp_var :: bool
  threshold_value :: int
  dpi_value :: int
  mode_var :: string
  compression_var :: int
  open_after_var :: bool
  convert_btn :: bool
  world :: world

text \<open>\<^verbatim>\<open>generate_output_path\<close>, lines 534 to 549.\<close>

definition generate_output_path :: "libs \<Rightarrow> app \<Rightarrow> path \<Rightarrow> path" where
  "generate_output_path L st input_path =
     (let output_dir = (if py_strip (output_dir_entry st) \<noteq> []
                        then py_strip (output_dir_entry st) else dirname input_path);
          filename = basename input_path;
          base = fst (splitext filename);
          ext = snd (splitext filename);
          suffix = py_strip (suffix_entry st);
          base1 = (if suffix \<noteq> [] then base @ suffix else base);
          base2 = (if timestamp_var st
                   then base1 @ ''_'' @ now L (current_file_index st) else base1)
      in path_join output_dir (base2 @ ext))"

text \<open>Lines 505 to 507 and 510 to 512: log the skip and advance.\<close>

definition skip_file :: "app \<Rightarrow> path \<Rightarrow> app" where
  "skip_file st input_path =
     st\<lparr>world := log_message (MsgSkip (basename input_path)) (world st),
        current_file_index := current_file_index st + 1\<rparr>"

text \<open>
  Lines 516 to 525: the page range handed to the pipeline. Any exception, from opening
  the document or from the parser, is logged and leaves \<^verbatim>\<open>page_range\<close> at \<^verbatim>\<open>None\<close>.
\<close>

definition resolve_page_range :: "libs \<Rightarrow> app \<Rightarrow> path \<Rightarrow> int list option \<times> world" where
  "resolve_page_range L st input_path =
     (let page_range_str = py_strip (page_range_entry st) in
      if page_range_str \<noteq> [] then
        (case open_document L (world st) input_path of
           Inl e \<Rightarrow> (None, log_message (MsgRangeError e) (world st))
         | Inr (content, total_pages) \<Rightarrow>
             (case parse_page_range page_range_str (int total_pages) of
                Inl e \<Rightarrow> (None, log_message (MsgRangeError e) (world st))
              | Inr pages \<Rightarrow> (Some pages, world st)))
      else (None, world st))"

text \<open>\<^verbatim>\<open>run_conversion\<close>, lines 551 to 570, up to the scheduling of the next file.\<close>

definition run_conversion :: "libs \<Rightarrow> app \<Rightarrow> path \<Rightarrow> path \<Rightarrow> int list option \<Rightarrow> app" where
  "run_conversion L st input_path output_path pages =
     (let r = \<lparr>input_pdf = input_path, output_pdf = output_path,
               threshold = threshold_value st, dpi = dpi_value st,
               progress_callback = True, page_range = pages,
               mode = mode_var st, compression = compression_var st\<rparr>;
          res = convert_pdf_to_bw L r (world st);
          success = fst res;
          w1 = snd res;
          w2 = (if success \<and> open_after_var st
                then w1\<lparr>opened := opened w1 @ [output_path]\<rparr> else w1)
      in st\<lparr>world := w2, current_file_index := current_file_index st + 1\<rparr>)"

text \<open>
  Lines 515 to 532 with the \<^verbatim>\<open>run_conversion\<close> that the thread executes: resolve the
  page range, then convert.
\<close>

definition convert_file :: "libs \<Rightarrow> app \<Rightarrow> path \<Rightarrow> path \<Rightarrow> app" where
  "convert_file L st input_path output_path =
     (let res = resolve_page_range L st input_path
      in run_conversion L (st\<lparr>world := snd res\<rparr>) input_path output_path (fst res))"

text \<open>
  The body of \<^verbatim>\<open>convert_next_file\<close> for the file at the current index, lines 493 to
  532: the state in which \<^verbatim>\<open>convert_next_file\<close> is entered again.
\<close>

definition file_step :: "libs \<Rightarrow> app \<Rightarrow> path \<Rightarrow> app" where
  "file_step L st input_path =
     (let output_path = generate_output_path L st input_path in
      if path_exists (world st) output_path then
        (if settings_overwrite st = ''ask'' then
           (if \<not> askyesno L (current_file_index st) then skip_file st input_path
            else convert_file L st input_path output_path)
         else if settings_overwrite st = ''skip'' then skip_file st input_path
         else convert_file L st input_path output_path)
      else convert_file L st input_path output_path)"

lemma file_step_index [simp]:
  "current_file_index (file_step L st p) = current_file_index st + 1"
  by (simp add: file_step_def skip_file_def convert_file_def run_conversion_def Let_def)

lemma file_step_total [simp]: "total_files (file_step L st p) = total_files st"
  by (simp add: file_step_def skip_file_def convert_file_def run_conversion_def Let_def)

lemma file_step_files [simp]: "input_files (file_step L st p) = input_files st"
  by (simp add: file_step_def skip_file_def convert_file_def run_conversion_def Let_def)

text \<open>
  \<^verbatim>\<open>convert_next_file\<close>, lines 487 to 532. Reading the list of files beyond its end
  raises \<^verbatim>\<open>IndexError\<close>, which ends the batch. After a conversion the function is
  entered again from the event loop (line 570); after a skip it calls itself (lines 507
  and 512). The model follows both alike and puts no bound on the depth of these calls:
  the call stack is taken to suffice, so the interpreter's recursion limit, which only a
  run of about a thousand skips in a row would reach, is not part of it.
\<close>

function convert_next_file :: "libs \<Rightarrow> app \<Rightarrow> exn + app" where
  "convert_next_file L st =
     (if current_file_index st \<ge> total_files st then
        Inr (st\<lparr>world := log_message MsgAllDone (world st), convert_btn := True\<rparr>)
      else if current_file_index st \<ge> length (input_files st) then Inl IndexError
      else convert_next_file L (file_step L st (input_files st ! current_file_index st)))"
  by pat_completeness auto
termination
  by (relation "measure (\<lambda>(L, st). total_files st - current_file_index st)") auto

declare convert_next_file.simps [simp del]


section \<open>Reading the log\<close>

text \<open>
  The program keeps no list of results: what it reports of a file is in its messages.
  Each file reached by \<^verbatim>\<open>convert_next_file\<close> is named once, by the skip message or by
  the first message of the pipeline; \<open>pipelines_started\<close> keeps the latter only. An
  outcome is a message that ends the handling of a file: a skip, a success or one of the
  failures.
\<close>

fun handled_file :: "msg \<Rightarrow> string option" where
  "handled_file (MsgSkip name) = Some name"
| "handled_file (MsgChecking name) = Some name"
| "handled_file _ = None"

definition files_handled :: "msg list \<Rightarrow> string list" where
  "files_handled l = concat (map (\<lambda>m. case handled_file m of None \<Rightarrow> [] | Some n \<Rightarrow> [n]) l)"

fun started_file :: "msg \<Rightarrow> string option" where
  "started_file (MsgChecking name) = Some name"
| "started_file _ = None"

definition pipelines_started :: "msg list \<Rightarrow> string list" where
  "pipelines_started l =
     concat (map (\<lambda>m. case started_file m of None \<Rightarrow> [] | Some n \<Rightarrow> [n]) l)"

fun is_outcome :: "msg \<Rightarrow> bool" where
  "is_outcome (MsgSkip name) = True"
| "is_outcome (MsgNotFound p) = True"
| "is_outcome MsgNoValidPages = True"
| "is_outcome (MsgError e) = True"
| "is_outcome (MsgSuccess i out) = True"
| "is_outcome _ = False"

definition outcomes :: "msg list \<Rightarrow> msg list" where
  "outcomes l = filter is_outcome l"

section \<open>Sample worlds\<close>

text \<open>
  Concrete libraries, requests and states on which the theorems below are run. In
  \<open>plain_libs\<close> every call succeeds and every document has two pages;
  \<open>failing_assembly_libs\<close> differs in that \<^verbatim>\<open>img2pdf.convert\<close> raises, and
  \<open>failing_render_libs\<close> in that rasterizing raises.
\<close>

definition plain_libs :: libs where
  "plain_libs =
     \<lparr>fitz_open = (\<lambda>content. Inr 2),
      render_gray = (\<lambda>content page_num dpi. Inr [0, 200]),
      save_tiff_g4 = (\<lambda>img. Inr img),
      save_jpeg = (\<lambda>img quality. Inr img),
      img2pdf_convert = (\<lambda>imgs. Inr (concat imgs)),
      open_wb = (\<lambda>p. True),
      askyesno = (\<lambda>i. True),
      now = (\<lambda>i. ''20260101_120000'')\<rparr>"

definition failing_assembly_libs :: libs where
  "failing_assembly_libs = plain_libs\<lparr>img2pdf_convert := (\<lambda>imgs. Inl LibError)\<rparr>"

definition failing_render_libs :: libs where
  "failing_render_libs = plain_libs\<lparr>render_gray := (\<lambda>content page_num dpi. Inl LibError)\<rparr>"

definition sample_world :: world where
  "sample_world =
     \<lparr>fs = [''in.pdf'' \<mapsto> File [1], ''out.pdf'' \<mapsto> File [2]],
      rendered = [], log = [], opened = []\<rparr>"

definition sample_request :: request where
  "sample_request =
     \<lparr>input_pdf = ''in.pdf'', output_pdf = ''out.pdf'', threshold = 180, dpi = 300,
      progress_callback = True, page_range = None, mode = ''bw'', compression = 95\<rparr>"

definition sample_app :: app where
  "sample_app =
     \<lparr>input_files = [''in.pdf'', ''missing.pdf'', ''out.pdf''],
      current_file_index = 0, total_files = 3,
      settings_overwrite = ''overwrite'', overwrite_var = ''overwrite'',
      output_dir_entry = [], suffix_entry = [], page_range_entry = [],
      timestamp_var = False, threshold_value = 180, dpi_value = 300,
      mode_var = ''bw'', compression_var = 95, open_after_var = False,
      convert_btn = True, world = sample_world\<rparr>"

section \<open>Properties of the page range parser\<close>

lemma py_strip_blank: "(\<forall>c\<in>set s. py_isspace c) \<Longrightarrow> py_strip s = []"
proof -
  assume "\<forall>c\<in>set s. py_isspace c"
  then have "dropWhile py_isspace s = []" by simp
  then show ?thesis unfolding py_strip_def py_rstrip_def py_lstrip_def
    by (simp del: dropWhile_eq_Nil_conv)
qed

lemma py_range_bounds: "p \<in> set (py_range a b) \<Longrightarrow> a \<le> p \<and> p < b"
  by (simp add: py_range_def)

lemma parse_part_in_range:
  assumes "parse_part n part = Inr new" and "p \<in> set new"
  shows "0 \<le> p \<and> p < n"
proof (cases "CHR ''-'' \<in> set (py_strip part)")
  case True
  show ?thesis
  proof (cases "\<exists>a b. py_split CHR ''-'' (py_strip part) = [a, b]")
    case False
    with True assms(1) have "new = []"
      by (simp add: parse_part_def split: list.splits)
    with assms(2) show ?thesis by simp
  next
    case True
    then obtain a b where ab: "py_split CHR ''-'' (py_strip part) = [a, b]" by blast
    from assms(1) \<open>CHR ''-'' \<in> set (py_strip part)\<close> ab
    have "\<exists>s e. new = py_range (max 1 s - 1) (min n e)"
      by (auto simp add: parse_part_def Let_def split: option.splits)
    then obtain s e where "new = py_range (max 1 s - 1) (min n e)" by blast
    with assms(2) have "max 1 s - 1 \<le> p \<and> p < min n e" using py_range_bounds by blast
    then show ?thesis by arith
  qed
next
  case False
  with assms(1) have "new = [] \<or> (\<exists>page. 1 \<le> page \<and> page \<le> n \<and> new = [page - 1])"
    by (auto simp add: parse_part_def Let_def split: if_splits option.splits)
  with assms(2) show ?thesis by auto
qed

lemma parse_parts_in_range:
  "parse_parts n parts pages = Inr res \<Longrightarrow> \<forall>p\<in>set pages. 0 \<le> p \<and> p < n
   \<Longrightarrow> \<forall>p\<in>set res. 0 \<le> p \<and> p < n"
proof (induction parts arbitrary: pages)
  case Nil
  then show ?case by simp
next
  case (Cons part parts)
  from Cons.prems(1) obtain new where new: "parse_part n part = Inr new"
    and rest: "parse_parts n parts (pages @ new) = Inr res"
    by (simp split: sum.splits)
  have "\<forall>p\<in>set (pages @ new). 0 \<le> p \<and> p < n"
    using Cons.prems(2) parse_part_in_range[OF new] by auto
  from Cons.IH[OF rest this] show ?case .
qed

text \<open>
  C2 (as the code behaves). The four worked examples, evaluated on the parser: page 5 of
  \<^verbatim>\<open>"1-3,5"\<close> is the 0-based index 4, so the first example gives \<open>[0, 1, 2, 4]\<close>; the other
  three give \<open>[7, 8, 9]\<close>, \<open>[0, 1, 2]\<close> and \<open>[1]\<close>.
\<close>

theorem parse_page_range_examples:
  "parse_page_range ''1-3,5'' 10 = Inr [0, 1, 2, 4] \<and>
   parse_page_range ''8-20'' 10 = Inr [7, 8, 9] \<and>
   parse_page_range ''0,-3'' 5 = Inr [0, 1, 2] \<and>
   parse_page_range ''abc,2'' 5 = Inr [1]"
  by code_simp

text \<open>
  C2 (as written) fails on its first example: \<^verbatim>\<open>parse_page_range("1-3,5", 10)\<close> is not
  \<open>[0, 1, 2, 5]\<close>.
\<close>

theorem parse_page_range_first_example_counterexample:
  "parse_page_range ''1-3,5'' 10 \<noteq> Inr [0, 1, 2, 5]"
  by code_simp

text \<open>
  C3. The parser does not return normally on every expression: the range term \<^verbatim>\<open>"a-b"\<close>
  reaches \<^verbatim>\<open>int("a")\<close> outside any \<^verbatim>\<open>try\<close>, and the \<^verbatim>\<open>ValueError\<close> leaves
  \<^verbatim>\<open>parse_page_range\<close>.
\<close>

theorem parse_page_range_malformed_range_raises:
  "parse_page_range ''a-b'' 5 = Inl ValueError"
  by code_simp

text \<open>
  C7. Whenever the parser returns a list, the list is strictly ascending (hence free of
  duplicates) and each of its entries is a 0-based index below the page count.
\<close>

theorem parse_page_range_sorted_in_range:
  "parse_page_range s n = Inr ps \<Longrightarrow>
   sorted_wrt (<) ps \<and> distinct ps \<and> (\<forall>p\<in>set ps. 0 \<le> p \<and> p < n)"
proof (cases "py_strip s = []")
  case True
  assume "parse_page_range s n = Inr ps"
  with True have "ps = [0..n - 1]" by (simp add: parse_page_range_def py_range_def)
  then show ?thesis by (auto simp: strict_sorted_iff)
next
  case False
  assume a: "parse_page_range s n = Inr ps"
  with False obtain pages where p: "parse_parts n (py_split CHR '','' s) [] = Inr pages"
    and ps: "ps = sorted_list_of_set (set pages)"
    by (auto simp: parse_page_range_def split: sum.splits)
  from parse_parts_in_range[OF p] have "\<forall>p\<in>set pages. 0 \<le> p \<and> p < n" by simp
  with ps show ?thesis by (simp add: strict_sorted_iff)
qed

theorem parse_page_range_sorted_in_range_witness:
  "parse_page_range ''3,1-3,5'' 10 = Inr [0, 1, 2, 4] \<and>
   sorted_wrt (<) [0, 1, 2, 4 :: int] \<and> distinct [0, 1, 2, 4 :: int] \<and>
   (0::int) \<le> 0 \<and> (4::int) < 10"
proof -
  have h: "parse_page_range ''3,1-3,5'' 10 = Inr [0, 1, 2, 4]" by code_simp
  show ?thesis using h parse_page_range_sorted_in_range[OF h] by simp
qed

text \<open>
  C8. For a page count of at least 1, an expression that is empty or consists of white
  space only selects the whole document: the indices 0 up to the page count minus 1.
\<close>

theorem parse_page_range_blank_full_document:
  "\<forall>c\<in>set s. py_isspace c \<Longrightarrow> 1 \<le> n \<Longrightarrow> parse_page_range s n = Inr [0..n - 1]"
  by (simp add: parse_page_range_def py_strip_blank py_range_def)

theorem parse_page_range_blank_full_document_witness:
  "py_isspace (CHR 0xA0) \<and> py_isspace CHR '' '' \<and> (1::int) \<le> 3 \<and>
   parse_page_range [CHR 0xA0, CHR '' ''] 3 = Inr [0, 1, 2]"
proof -
  have a: "\<forall>c\<in>set [CHR 0xA0, CHR '' '']. py_isspace c" by (simp add: py_isspace_def)
  have b: "(1::int) \<le> 3" by simp
  have c: "[0..(3::int) - 1] = [0, 1, 2]" by code_simp
  show ?thesis using a b parse_page_range_blank_full_document[OF a b] c by simp
qed

section \<open>The tone transform: thresholding\<close>

lemma point_table_nth: "point_table f ! unat (v :: pixel) = f (uint v)"
proof -
  have lt: "unat v < 256" using unsigned_less[of v, where ?'a = nat] by simp
  have "[0..255] ! unat v = 0 + int (unat v)"
    by (rule nth_upto) (use lt in linarith)
  then have nth: "py_range 0 256 ! unat v = uint v"
    by (simp add: py_range_def)
  have "unat v < length (py_range 0 256)" using lt by (simp add: py_range_def)
  with nth show ?thesis by (simp add: point_table_def)
qed

lemma point_pixel_threshold:
  "point_pixel (point_table (threshold_fn t)) v = (if uint v < t then black else white)"
  by (simp add: point_pixel_def point_table_nth threshold_fn_def black_def white_def)

text \<open>
  C6. For every grey value \<open>v\<close> (a byte, 0 to 255) and every threshold \<open>t\<close> (any integer,
  so 0 to 255 too), the bitonal transform of line 151 turns a pixel black exactly when its
  value is below the threshold and white otherwise; a pixel whose value equals the
  threshold becomes white; black and white differ.
\<close>

theorem point_bw_threshold:
  "point_bw t img = map (\<lambda>v. if uint v < t then black else white) img \<and>
   point_bw (uint v) [v] = [white] \<and> black \<noteq> white"
  by (simp add: point_bw_def point_pixel_threshold black_def white_def)

section \<open>Output paths\<close>





lemma head_tail_append:
  "rev (dropWhile (\<lambda>x. x \<noteq> c) (rev p)) @ rev (takeWhile (\<lambda>x. x \<noteq> c) (rev p)) = p"
  by (metis rev_append rev_rev_ident takeWhile_dropWhile_id)













section \<open>The pipeline and the destination file\<close>

lemma report_fs [simp]: "fs (report r m w) = fs w"
  by (simp add: report_def log_message_def)

lemma report_rendered [simp]: "rendered (report r m w) = rendered w"
  by (simp add: report_def log_message_def)

lemma process_pages_fs:
  "process_pages L r content n idx ps acc w = (res, w') \<Longrightarrow> fs w' = fs w"
proof (induction ps arbitrary: idx acc w)
  case Nil
  then show ?case by simp
next
  case (Cons page_num rest)
  then show ?case
    by (auto simp: Let_def split: sum.splits if_splits)
qed

text \<open>
  C1 (as the code behaves). A run of the pipeline that leaves at any point before the
  assembly (the input is missing, the document does not open, no page is selected, a page
  fails to rasterize, transform or encode, or the destination cannot be opened for
  writing) returns failure and leaves the file system, and so the destination's contents
  or absence, as it was. The destination is opened only after every selected page has
  been encoded.
\<close>

theorem failure_before_assembly_keeps_destination:
  assumes "convert_run L r w = (x, w')" and "x \<noteq> AssemblyFailed" and "x \<noteq> Done"
  shows "convert_pdf_to_bw L r w = (False, w') \<and> fs w' = fs w"
proof -
  have "fs w' = fs w"
    using assms
    by (auto simp: convert_run_def Let_def split: if_splits sum.splits prod.splits
        dest: process_pages_fs)
  then show ?thesis using assms by (simp add: convert_pdf_to_bw_def)
qed

text \<open>
  C1 (as written) fails when the assembly fails: the destination \<^verbatim>\<open>out.pdf\<close> held
  the byte 2 before the run, \<^verbatim>\<open>img2pdf.convert\<close> raises, the run returns failure, and
  the destination is left empty, because line 162 opened it before line 163 assembled.
\<close>

theorem assembly_failure_empties_destination_counterexample:
  "fst (convert_run failing_assembly_libs sample_request sample_world) = AssemblyFailed \<and>
   fst (convert_pdf_to_bw failing_assembly_libs sample_request sample_world) = False \<and>
   fs sample_world ''out.pdf'' = Some (File [2]) \<and>
   fs (snd (convert_pdf_to_bw failing_assembly_libs sample_request sample_world)) ''out.pdf''
     = Some (File [])"
  by code_simp

theorem failure_before_assembly_keeps_destination_witness:
  "fst (convert_run failing_render_libs sample_request sample_world) = PageFailed \<and>
   PageFailed \<noteq> AssemblyFailed \<and> PageFailed \<noteq> Done \<and>
   convert_pdf_to_bw failing_render_libs sample_request sample_world
     = (False, snd (convert_run failing_render_libs sample_request sample_world)) \<and>
   fs (snd (convert_run failing_render_libs sample_request sample_world)) = fs sample_world"
proof -
  let ?res = "convert_run failing_render_libs sample_request sample_world"
  have x: "fst ?res = PageFailed" by code_simp
  have a: "?res = (PageFailed, snd ?res)" using x by (metis prod.collapse)
  have b: "PageFailed \<noteq> AssemblyFailed" and c: "PageFailed \<noteq> Done" by simp_all
  show ?thesis
    using x failure_before_assembly_keeps_destination[OF a b c] by simp
qed

section \<open>Empty page selections\<close>

text \<open>
  C4. When the document opens and the request carries a page list of which every index is
  at least the page count (the empty list included, as the parser returns it), the
  pipeline leaves at line 135: it returns failure, reports that no valid page was found,
  hands no page to the rasterizer and writes nothing. It does not go on with the whole
  document.
\<close>

theorem empty_selection_fails_before_rendering:
  assumes "fs w (input_pdf r) = Some (File content)" and "fitz_open L content = Inr n"
    and "page_range r = Some ps" and "\<forall>p\<in>set ps. int n \<le> p"
  shows "convert_run L r w =
           (EmptySelection,
            report r MsgNoValidPages (report r (MsgChecking (basename (input_pdf r))) w)) \<and>
         fst (convert_pdf_to_bw L r w) = False \<and>
         rendered (snd (convert_pdf_to_bw L r w)) = rendered w \<and>
         fs (snd (convert_pdf_to_bw L r w)) = fs w"
proof -
  let ?w1 = "report r (MsgChecking (basename (input_pdf r))) w"
  have ex: "path_exists ?w1 (input_pdf r)" using assms(1) by (simp add: path_exists_def)
  have op: "open_document L ?w1 (input_pdf r) = Inr (content, n)"
    using assms(1,2) by (simp add: open_document_def)
  have "filter (\<lambda>p. p < int n) ps = []" using assms(4) by (auto simp: filter_empty_conv)
  then have run: "convert_run L r w = (EmptySelection, report r MsgNoValidPages ?w1)"
    using ex op assms(3) by (simp add: convert_run_def Let_def)
  then show ?thesis by (simp add: convert_pdf_to_bw_def)
qed

theorem empty_selection_fails_before_rendering_witness:
  "fs sample_world (input_pdf (sample_request\<lparr>page_range := Some [2, 5]\<rparr>)) = Some (File [1]) \<and>
   fitz_open plain_libs [1] = Inr 2 \<and>
   page_range (sample_request\<lparr>page_range := Some [2, 5]\<rparr>) = Some [2, 5] \<and>
   int 2 \<le> 2 \<and> int 2 \<le> 5 \<and>
   fst (convert_pdf_to_bw plain_libs (sample_request\<lparr>page_range := Some [2, 5]\<rparr>) sample_world) = False \<and>
   rendered (snd (convert_pdf_to_bw plain_libs (sample_request\<lparr>page_range := Some [2, 5]\<rparr>) sample_world)) = rendered sample_world \<and>
   fs (snd (convert_pdf_to_bw plain_libs (sample_request\<lparr>page_range := Some [2, 5]\<rparr>) sample_world)) = fs sample_world"
proof -
  let ?r = "sample_request\<lparr>page_range := Some [2, 5]\<rparr>"
  have a: "fs sample_world (input_pdf ?r) = Some (File [1])" by code_simp
  have b: "fitz_open plain_libs [1] = Inr 2" by code_simp
  have c: "page_range ?r = Some [2, 5]" by simp
  have d: "\<forall>p\<in>set [2, 5]. int 2 \<le> p" by simp
  show ?thesis using a b c empty_selection_fails_before_rendering[OF a b c d] by simp
qed

section \<open>The overwrite policy\<close>

text \<open>
  C9. When the policy is \<^verbatim>\<open>'skip'\<close> and the output path computed for the file at the
  current index exists, handling that file is the skip alone: no page reaches the
  rasterizer, the file system is untouched, the log gains the skip message and nothing
  else (so no message of the pipeline), the index advances by one, and
  \<^verbatim>\<open>convert_next_file\<close> goes on from that state with the next file.
\<close>

theorem skip_policy_never_converts:
  assumes "current_file_index st < total_files st"
    and "current_file_index st < length (input_files st)"
    and "input_path = input_files st ! current_file_index st"
    and "path_exists (world st) (generate_output_path L st input_path)"
    and "settings_overwrite st = ''skip''"
  shows "file_step L st input_path = skip_file st input_path \<and>
         rendered (world (file_step L st input_path)) = rendered (world st) \<and>
         fs (world (file_step L st input_path)) = fs (world st) \<and>
         log (world (file_step L st input_path))
           = log (world st) @ [MsgSkip (basename input_path)] \<and>
         current_file_index (file_step L st input_path) = current_file_index st + 1 \<and>
         convert_next_file L st = convert_next_file L (skip_file st input_path)"
proof -
  have step: "file_step L st input_path = skip_file st input_path"
    using assms(4,5) by (simp add: file_step_def Let_def)
  have next_file: "convert_next_file L st = convert_next_file L (file_step L st input_path)"
    using assms(1,2,3) by (subst convert_next_file.simps) simp
  show ?thesis
    using step next_file by (simp add: skip_file_def log_message_def)
qed

theorem skip_policy_never_converts_witness:
  "current_file_index (sample_app\<lparr>settings_overwrite := ''skip''\<rparr>)
     < total_files (sample_app\<lparr>settings_overwrite := ''skip''\<rparr>) \<and>
   current_file_index (sample_app\<lparr>settings_overwrite := ''skip''\<rparr>)
     < length (input_files (sample_app\<lparr>settings_overwrite := ''skip''\<rparr>)) \<and>
   ''in.pdf'' = input_files (sample_app\<lparr>settings_overwrite := ''skip''\<rparr>)
       ! current_file_index (sample_app\<lparr>settings_overwrite := ''skip''\<rparr>) \<and>
   path_exists (world (sample_app\<lparr>settings_overwrite := ''skip''\<rparr>))
     (generate_output_path plain_libs (sample_app\<lparr>settings_overwrite := ''skip''\<rparr>) ''in.pdf'') \<and>
   settings_overwrite (sample_app\<lparr>settings_overwrite := ''skip''\<rparr>) = ''skip'' \<and>
   rendered (world (file_step plain_libs (sample_app\<lparr>settings_overwrite := ''skip''\<rparr>) ''in.pdf'')) = [] \<and>
   log (world (file_step plain_libs (sample_app\<lparr>settings_overwrite := ''skip''\<rparr>) ''in.pdf''))
     = [MsgSkip ''in.pdf''] \<and>
   current_file_index (file_step plain_libs (sample_app\<lparr>settings_overwrite := ''skip''\<rparr>) ''in.pdf'') = 1"
proof -
  let ?st = "sample_app\<lparr>settings_overwrite := ''skip''\<rparr>"
  have a: "current_file_index ?st < total_files ?st" by code_simp
  have b: "current_file_index ?st < length (input_files ?st)" by code_simp
  have c: "''in.pdf'' = input_files ?st ! current_file_index ?st" by code_simp
  have d: "path_exists (world ?st) (generate_output_path plain_libs ?st ''in.pdf'')" by code_simp
  have e: "settings_overwrite ?st = ''skip''" by simp
  have r0: "rendered (world ?st) = []" by code_simp
  have l0: "log (world ?st) = []" by code_simp
  have i0: "current_file_index ?st = 0" by code_simp
  have bn: "basename ''in.pdf'' = ''in.pdf''" by code_simp
  note t = skip_policy_never_converts[OF a b c d e]
  have r1: "rendered (world (file_step plain_libs ?st ''in.pdf'')) = []"
    using t r0 by metis
  have l1: "log (world (file_step plain_libs ?st ''in.pdf'')) = [MsgSkip ''in.pdf'']"
    using t l0 bn by (metis append_Nil)
  have i1: "current_file_index (file_step plain_libs ?st ''in.pdf'') = 1"
    using t i0 by (metis add_0)
  show ?thesis
    using a b c d e r1 l1 i1 by blast
qed

section \<open>The batch runs to its end\<close>

lemma files_handled_append [simp]:
  "files_handled (a @ b) = files_handled a @ files_handled b"
  by (simp add: files_handled_def)

lemma pipelines_started_append [simp]:
  "pipelines_started (a @ b) = pipelines_started a @ pipelines_started b"
  by (simp add: pipelines_started_def)

lemma outcomes_append [simp]: "outcomes (a @ b) = outcomes a @ outcomes b"
  by (simp add: outcomes_def)

lemma files_handled_single [simp]:
  "files_handled [m] = (case handled_file m of None \<Rightarrow> [] | Some n \<Rightarrow> [n])"
  by (simp add: files_handled_def)

lemma pipelines_started_single [simp]:
  "pipelines_started [m] = (case started_file m of None \<Rightarrow> [] | Some n \<Rightarrow> [n])"
  by (simp add: pipelines_started_def)

lemma outcomes_single [simp]: "outcomes [m] = (if is_outcome m then [m] else [])"
  by (simp add: outcomes_def)










lemma file_step_overwrite [simp]:
  "settings_overwrite (file_step L st p) = settings_overwrite st"
  by (simp add: file_step_def skip_file_def convert_file_def run_conversion_def Let_def)






end
